theory Spec2Isabelle
  imports
    Complex_Main
    "HOL-Library.AList"
    "HOL-Library.Char_ord"
    "HOL-Library.List_Lexorder"
    "HOL-Library.Multiset"
    "HOL-Library.Product_Lexorder"
begin

section \<open>WebShopBackend: the products API in three variants\<close>

text \<open>
  The repository holds three implementations of the same HTTP API over one collection of
  products:
  \<^item> \<^verbatim>\<open>src/server.js\<close>: Express handlers over a Firestore collection; the list
    endpoint returns every document and the median endpoint returns one document.
    Its definitions carry the prefix \<open>srv_\<close>.
  \<^item> \<^verbatim>\<open>src/unnamed/part_000\<close>: the same Express handlers with a paginated, sorted list
    endpoint and a median endpoint that returns two documents for an even count.
    Its definitions carry the prefix \<open>pg_\<close>. The handlers that are the same text in both
    files (expensivest, cheapest, count, get by id, delete by id, delete all) are modelled
    once, with the prefix \<open>fs_\<close>.
  \<^item> \<^verbatim>\<open>src/unnamed/part_001\<close>: a plain \<^verbatim>\<open>http\<close> server over the module-level array
    \<^verbatim>\<open>products\<close>. Its definitions keep the names of the source.
\<close>

subsection \<open>JavaScript values\<close>

text \<open>
  The values a field of a parsed JSON body can hold, restricted to scalars; \<open>Undefined\<close>
  is what reading an absent property gives. \<open>Num r\<close> is the finite double whose value
  is \<open>r\<close>, so a rational that is no double is no value of the language; a number is
  already rounded when a body has been parsed. Strings are lists of code units below 256.
\<close>

datatype jsval = Undefined | Null | Bool bool | Num rat | Str string

text \<open>\<^verbatim>\<open>!v\<close> is \<open>\<not> truthy v\<close> (ToBoolean).\<close>

fun truthy :: "jsval \<Rightarrow> bool" where
  "truthy Undefined = False"
| "truthy Null = False"
| "truthy (Bool b) = b"
| "truthy (Num r) = (r \<noteq> 0)"
| "truthy (Str s) = (s \<noteq> [])"

datatype js_error = TypeError | SyntaxError

text \<open>
  \<^verbatim>\<open>v.toString()\<close>. Reading a property of \<^verbatim>\<open>undefined\<close> or \<^verbatim>\<open>null\<close> throws.
  The decimal rendering of a number is the language's own (Number.prototype.toString)
  and is taken as the parameter \<open>n2s\<close>.
\<close>

fun toString :: "(rat \<Rightarrow> string) \<Rightarrow> jsval \<Rightarrow> js_error + string" where
  "toString n2s Undefined = Inl TypeError"
| "toString n2s Null = Inl TypeError"
| "toString n2s (Bool b) = Inr (if b then ''true'' else ''false'')"
| "toString n2s (Num r) = Inr (n2s r)"
| "toString n2s (Str s) = Inr s"

text \<open>White space as \<^verbatim>\<open>trim\<close> and \<^verbatim>\<open>parseInt\<close> see it, among the code units below 256:
  TAB, LF, VT, FF, CR, SP and NBSP.\<close>

definition is_ws :: "char \<Rightarrow> bool" where
  "is_ws c = (of_char c \<in> {9, 10, 11, 12, 13, 32, 160 :: nat})"

definition trim :: "string \<Rightarrow> string" where
  "trim s = rev (dropWhile is_ws (rev (dropWhile is_ws s)))"

definition is_digit :: "char \<Rightarrow> bool" where
  "is_digit c = (48 \<le> (of_char c :: nat) \<and> (of_char c :: nat) \<le> 57)"

definition digit_val :: "char \<Rightarrow> int" where
  "digit_val c = int (of_char c) - 48"

definition is_hex_digit :: "char \<Rightarrow> bool" where
  "is_hex_digit c =
     (let n = (of_char c :: nat)
      in (48 \<le> n \<and> n \<le> 57) \<or> (65 \<le> n \<and> n \<le> 70) \<or> (97 \<le> n \<and> n \<le> 102))"

definition hex_val :: "char \<Rightarrow> int" where
  "hex_val c =
     (let n = int (of_char c)
      in if n \<le> 57 then n - 48 else if n \<le> 70 then n - 55 else n - 87)"

text \<open>
  The numbers \<^verbatim>\<open>parseInt\<close> returns and the arithmetic on them gives. A number is a
  double: NaN, an infinity, or \<open>Finite n\<close> for the double whose value is the integer \<open>n\<close>
  (the two zeros are one value here; nothing modelled tells them apart).
\<close>

datatype jsnum = NaN | Finite int | PosInfinity | NegInfinity

text \<open>The number of binary digits of a natural number.\<close>

function bit_length :: "nat \<Rightarrow> nat" where
  "bit_length n = (if n = 0 then 0 else Suc (bit_length (n div 2)))"
  by pat_completeness auto
termination
  by (relation "measure (\<lambda>n. n)") auto

text \<open>
  The double nearest to an integer, ties going to the even significand of 53 bits, and an
  infinity from \<open>2 ^ 1024\<close> on after rounding: how the language turns the mathematical
  value of a digit string, a difference or a product into a number.
\<close>

definition to_double :: "int \<Rightarrow> jsnum" where
  "to_double n =
     (let a = nat \<bar>n\<bar>
      in if a < 2 ^ 53 then Finite n
         else let e = bit_length a - 53;
                  q = a div 2 ^ e;
                  r = a mod 2 ^ e;
                  q' = (if 2 ^ e < 2 * r \<or> (2 * r = 2 ^ e \<and> odd q) then q + 1 else q);
                  v = q' * 2 ^ e
              in if 2 ^ 1024 \<le> v then (if n < 0 then NegInfinity else PosInfinity)
                 else Finite (if n < 0 then - int v else int v))"

text \<open>
  \<^verbatim>\<open>parseInt(s)\<close> with no radix: leading white space is skipped, a sign is read, a
  \<^verbatim>\<open>0x\<close>/\<^verbatim>\<open>0X\<close> prefix selects base 16, and the longest run of digits is the value,
  rounded to a double; no digit at all gives NaN. \<^verbatim>\<open>parseInt(undefined)\<close> is NaN too.
\<close>

definition digits_value :: "int \<Rightarrow> (char \<Rightarrow> int) \<Rightarrow> string \<Rightarrow> int" where
  "digits_value base val ds = foldl (\<lambda>acc c. acc * base + val c) 0 ds"

definition parseInt :: "string \<Rightarrow> jsnum" where
  "parseInt s =
     (let t = dropWhile is_ws s;
          neg = (case t of c # _ \<Rightarrow> c = CHR ''-'' | [] \<Rightarrow> False);
          u = (case t of c # r \<Rightarrow> if c = CHR ''-'' \<or> c = CHR ''+'' then r else t | [] \<Rightarrow> t);
          hex = (case u of a # b # _ \<Rightarrow> a = CHR ''0'' \<and> (b = CHR ''x'' \<or> b = CHR ''X'') | _ \<Rightarrow> False);
          ds = (if hex then takeWhile is_hex_digit (drop 2 u) else takeWhile is_digit u);
          v = (if hex then digits_value 16 hex_val ds else digits_value 10 digit_val ds)
      in if ds = [] then NaN else to_double (if neg then - v else v))"

definition parseInt_opt :: "string option \<Rightarrow> jsnum" where
  "parseInt_opt q = (case q of None \<Rightarrow> NaN | Some s \<Rightarrow> parseInt s)"

text \<open>\<^verbatim>\<open>n || d\<close> for a number \<open>n\<close>: NaN and 0 are falsy.\<close>

definition or_default :: "jsnum \<Rightarrow> int \<Rightarrow> jsnum" where
  "or_default n d = (if n = NaN \<or> n = Finite 0 then Finite d else n)"

text \<open>\<^verbatim>\<open>a - b\<close> and \<^verbatim>\<open>a * b\<close> on numbers: the exact result rounded to a double, with
  the rules of the infinities and of NaN.\<close>

fun num_sub :: "jsnum \<Rightarrow> jsnum \<Rightarrow> jsnum" where
  "num_sub (Finite x) (Finite y) = to_double (x - y)"
| "num_sub NaN b = NaN"
| "num_sub a NaN = NaN"
| "num_sub PosInfinity PosInfinity = NaN"
| "num_sub NegInfinity NegInfinity = NaN"
| "num_sub PosInfinity b = PosInfinity"
| "num_sub NegInfinity b = NegInfinity"
| "num_sub a PosInfinity = NegInfinity"
| "num_sub a NegInfinity = PosInfinity"

definition num_sign :: "jsnum \<Rightarrow> int" where
  "num_sign a = (case a of Finite x \<Rightarrow> sgn x | PosInfinity \<Rightarrow> 1 | NegInfinity \<Rightarrow> - 1 | NaN \<Rightarrow> 0)"

fun num_mul :: "jsnum \<Rightarrow> jsnum \<Rightarrow> jsnum" where
  "num_mul (Finite x) (Finite y) = to_double (x * y)"
| "num_mul NaN b = NaN"
| "num_mul a NaN = NaN"
| "num_mul a b =
     (if num_sign a * num_sign b = 0 then NaN
      else if 0 < num_sign a * num_sign b then PosInfinity else NegInfinity)"

text \<open>\<^verbatim>\<open>xs[i]\<close>: \<open>None\<close> is the \<^verbatim>\<open>undefined\<close> an index out of range reads.\<close>

definition js_nth :: "'a list \<Rightarrow> int \<Rightarrow> 'a option" where
  "js_nth xs i = (if 0 \<le> i \<and> i < int (length xs) then Some (xs ! nat i) else None)"

subsection \<open>Products, responses\<close>

text \<open>A product as the handlers read and write it: \<^verbatim>\<open>{ id, name, price }\<close>.\<close>

record product =
  p_id :: jsval
  p_name :: jsval
  p_price :: jsval

text \<open>
  The JSON payloads the handlers send. \<open>None\<close> in a product position is the
  \<^verbatim>\<open>undefined\<close> of an index out of range. \<open>DeletedBody id\<close> is the message
  \<^verbatim>\<open>Product with id: '${id}' deleted\<close>. \<open>EngineOrderBody\<close> is a product, or a pair
  of products, of the array, picked from an order that the language leaves to the engine.
\<close>

datatype payload =
    ErrorBody string
  | MessageBody string
  | DeletedBody jsnum
  | ProductBody "product option"
  | PairBody "product option" "product option"
  | ListBody "product list"
  | PageBody nat jsnum jsnum "product list"
  | CountBody nat
  | EngineOrderBody

text \<open>
  What a handler does with a request: it sends a status and a payload, or it throws,
  or it returns without ending the response.
\<close>

datatype outcome = Reply nat payload | Throws js_error | NoReply

subsection \<open>The document store\<close>

text \<open>
  Modelled from the spec: the Firestore client (\<^verbatim>\<open>db\<close>, imported from
  \<^verbatim>\<open>firebase.js\<close>) is not part of the sources. The spec describes it as an external
  store holding each product as a keyed document, with create-or-replace-by-key writes,
  point lookups and deletes by key, a batched delete, and ordering, skipping and limiting
  of query results over all documents. A collection is a list of key and document pairs
  with distinct keys; store and transport failures (the HTTP 500 paths) are outside the
  model.
\<close>

type_synonym collection = "(string \<times> product) list"

definition wf_collection :: "collection \<Rightarrow> bool" where
  "wf_collection c = distinct (map fst c)"

text \<open>Modelled from the spec: \<^verbatim>\<open>collection.get()\<close>, every document. The spec gives the
  snapshot no order; the model lists it by key.\<close>

definition coll_get :: "collection \<Rightarrow> (string \<times> product) list" where
  "coll_get c = sort_key fst c"

text \<open>Modelled from the spec: \<^verbatim>\<open>doc(k).get()\<close>; \<open>None\<close> is a snapshot with
  \<^verbatim>\<open>exists\<close> false.\<close>

definition doc_get :: "collection \<Rightarrow> string \<Rightarrow> product option" where
  "doc_get c k = map_of c k"

text \<open>Modelled from the spec: \<^verbatim>\<open>doc(k).set(d)\<close>, create or replace by key.\<close>

definition doc_set :: "string \<Rightarrow> product \<Rightarrow> collection \<Rightarrow> collection" where
  "doc_set k d c = AList.update k d c"

text \<open>Modelled from the spec: \<^verbatim>\<open>doc(k).delete()\<close>.\<close>

definition doc_delete :: "string \<Rightarrow> collection \<Rightarrow> collection" where
  "doc_delete k c = AList.delete k c"

text \<open>Modelled from the spec: \<^verbatim>\<open>batch.commit()\<close> of a batch of deletes, applied as
  one unit.\<close>

definition batch_commit :: "string list \<Rightarrow> collection \<Rightarrow> collection" where
  "batch_commit ks c = fold doc_delete ks c"

datatype field = FName | FPrice

datatype direction = Asc | Desc

definition field_of :: "field \<Rightarrow> product \<Rightarrow> jsval" where
  "field_of f d = (case f of FName \<Rightarrow> p_name d | FPrice \<Rightarrow> p_price d)"

text \<open>
  Modelled from the spec: the order of the store on field values. Values of different
  types are ordered by type (absent, null, booleans, numbers, strings), numbers by
  value and strings by code units.
\<close>

fun fs_key :: "jsval \<Rightarrow> nat \<times> rat \<times> string" where
  "fs_key Undefined = (0, 0, [])"
| "fs_key Null = (1, 0, [])"
| "fs_key (Bool b) = (2, (if b then 1 else 0), [])"
| "fs_key (Num r) = (3, r, [])"
| "fs_key (Str s) = (4, 0, s)"

text \<open>Modelled from the spec: \<^verbatim>\<open>orderBy(field, direction)\<close> over all documents;
  equal values stay in key order, and descending is the reverse of ascending.\<close>

definition orderBy :: "field \<Rightarrow> direction \<Rightarrow> collection \<Rightarrow> (string \<times> product) list" where
  "orderBy f dir c =
     (let asc = sort_key (\<lambda>kd. fs_key (field_of f (snd kd))) (coll_get c)
      in case dir of Asc \<Rightarrow> asc | Desc \<Rightarrow> rev asc)"

text \<open>Modelled from the spec: \<^verbatim>\<open>offset(n)\<close> and \<^verbatim>\<open>limit(n)\<close>. The spec leaves
  the result for a negative argument open; the model then skips or keeps nothing.\<close>

datatype store_error = InvalidArgument

text \<open>Modelled from the spec: the store takes integers, and the spec leaves to the store
  what it tolerates. In the model a number that is no integer (NaN, an infinity) makes
  the call fail, which is the store failure the handler catches.\<close>

definition as_integer :: "jsnum \<Rightarrow> store_error + int" where
  "as_integer n = (case n of Finite i \<Rightarrow> Inr i | _ \<Rightarrow> Inl InvalidArgument)"

definition offset_q :: "int \<Rightarrow> 'a list \<Rightarrow> 'a list" where
  "offset_q n xs = drop (nat n) xs"

definition limit_q :: "int \<Rightarrow> 'a list \<Rightarrow> 'a list" where
  "limit_q n xs = take (nat n) xs"

text \<open>\<^verbatim>\<open>{ id: doc.id, ...doc.data() }\<close>: the key is the \<^verbatim>\<open>id\<close> only where the data
  has no \<^verbatim>\<open>id\<close> field of its own.\<close>

definition with_id :: "string \<times> product \<Rightarrow> product" where
  "with_id kd = (if p_id (snd kd) = Undefined then (snd kd)\<lparr>p_id := Str (fst kd)\<rparr> else snd kd)"

subsection \<open>The Express handlers over the store\<close>

text \<open>
  Every handler takes the collection and returns what it does with the request together
  with the collection afterwards. The six handlers below are the same text in
  \<^verbatim>\<open>src/server.js\<close> and \<^verbatim>\<open>src/unnamed/part_000\<close>.
\<close>

definition first_product :: "(string \<times> product) list \<Rightarrow> outcome" where
  "first_product docs =
     (case js_nth docs 0 of
        None \<Rightarrow> Throws TypeError
      | Some kd \<Rightarrow> Reply 200 (ProductBody (Some (with_id kd))))"

definition fs_get_expensivest :: "collection \<Rightarrow> outcome \<times> collection" where
  "fs_get_expensivest c =
     (let snapshot = limit_q 1 (orderBy FPrice Desc c)
      in if snapshot = [] then (Reply 404 (ErrorBody ''No products found''), c)
         else (first_product snapshot, c))"

definition fs_get_cheapest :: "collection \<Rightarrow> outcome \<times> collection" where
  "fs_get_cheapest c =
     (let snapshot = limit_q 1 (orderBy FPrice Asc c)
      in if snapshot = [] then (Reply 404 (ErrorBody ''No products found''), c)
         else (first_product snapshot, c))"

definition fs_get_count :: "collection \<Rightarrow> outcome \<times> collection" where
  "fs_get_count c = (let snapshot = coll_get c in (Reply 200 (CountBody (length snapshot)), c))"

definition fs_get_by_id :: "string \<Rightarrow> collection \<Rightarrow> outcome \<times> collection" where
  "fs_get_by_id k c =
     (case doc_get c k of
        None \<Rightarrow> (Reply 404 (ErrorBody ''Product not found''), c)
      | Some d \<Rightarrow> (Reply 200 (ProductBody (Some (with_id (k, d)))), c))"

definition fs_delete_by_id :: "string \<Rightarrow> collection \<Rightarrow> outcome \<times> collection" where
  "fs_delete_by_id k c =
     (case doc_get c k of
        None \<Rightarrow> (Reply 404 (ErrorBody ''Product not found''), c)
      | Some d \<Rightarrow> (Reply 200 (MessageBody ''Product deleted''), doc_delete k c))"

definition fs_delete_all :: "collection \<Rightarrow> outcome \<times> collection" where
  "fs_delete_all c =
     (let snapshot = coll_get c;
          batch = map fst snapshot
      in (Reply 200 (MessageBody ''All products deleted''), batch_commit batch c))"

text \<open>
  \<^verbatim>\<open>POST /products\<close>. The two files differ in the text of the 400 message only, which
  is the argument \<open>msg\<close>. The body is read as its three fields, an absent one being
  \<open>Undefined\<close>.
\<close>

definition fs_post_products ::
  "string \<Rightarrow> (rat \<Rightarrow> string) \<Rightarrow> product \<Rightarrow> collection \<Rightarrow> outcome \<times> collection" where
  "fs_post_products msg n2s b c =
     (if \<not> truthy (p_id b) \<or> \<not> truthy (p_name b) then (Reply 400 (ErrorBody msg), c)
      else case toString n2s (p_id b) of
             Inl e \<Rightarrow> (Throws e, c)
           | Inr k \<Rightarrow> (Reply 201 (ProductBody (Some b)), doc_set k b c))"

definition srv_post_products ::
  "(rat \<Rightarrow> string) \<Rightarrow> product \<Rightarrow> collection \<Rightarrow> outcome \<times> collection" where
  "srv_post_products = fs_post_products ''id and name required''"

definition pg_post_products ::
  "(rat \<Rightarrow> string) \<Rightarrow> product \<Rightarrow> collection \<Rightarrow> outcome \<times> collection" where
  "pg_post_products = fs_post_products ''id and name are required''"

text \<open>\<^verbatim>\<open>GET /products\<close> of \<^verbatim>\<open>src/server.js\<close>: every document, no parameter read.\<close>

definition srv_get_products :: "collection \<Rightarrow> outcome \<times> collection" where
  "srv_get_products c =
     (let snapshot = coll_get c;
          products = map with_id snapshot
      in (Reply 200 (ListBody products), c))"

text \<open>\<^verbatim>\<open>GET /products\<close> of \<^verbatim>\<open>part_000\<close>: one page of the sorted documents. A query
  parameter is a string or absent. The \<^verbatim>\<open>catch\<close> of the handler answers a failure of
  the store with 500.\<close>

record query =
  q_pageIndex :: "string option"
  q_pageSize :: "string option"
  q_sortField :: "string option"
  q_sort :: "string option"

definition pg_pageIndex :: "query \<Rightarrow> jsnum" where
  "pg_pageIndex q = or_default (parseInt_opt (q_pageIndex q)) 1"

definition pg_pageSize :: "query \<Rightarrow> jsnum" where
  "pg_pageSize q = or_default (parseInt_opt (q_pageSize q)) 10"

definition pg_sortField :: "query \<Rightarrow> field" where
  "pg_sortField q = (if q_sortField q = Some ''price'' then FPrice else FName)"

definition pg_sortDirection :: "query \<Rightarrow> direction" where
  "pg_sortDirection q = (if q_sort q = Some ''desc'' then Desc else Asc)"


definition pg_get_products :: "query \<Rightarrow> collection \<Rightarrow> outcome \<times> collection" where
  "pg_get_products q c =
     (let pageIndex = pg_pageIndex q;
          pageSize = pg_pageSize q;
          sortField = pg_sortField q;
          sortDirection = pg_sortDirection q;
          offset = num_mul (num_sub pageIndex (Finite 1)) pageSize;
          totalCount = length (coll_get c)
      in case as_integer offset of
           Inl error \<Rightarrow> (Reply 500 (ErrorBody ''No products found''), c)
         | Inr skip \<Rightarrow>
             (case as_integer pageSize of
                Inl error \<Rightarrow> (Reply 500 (ErrorBody ''No products found''), c)
              | Inr keep \<Rightarrow>
                  (let snapshot = limit_q keep (offset_q skip (orderBy sortField sortDirection c));
                       products = map with_id snapshot
                   in (Reply 200 (PageBody totalCount pageIndex pageSize products), c))))"

text \<open>\<^verbatim>\<open>GET /products/median\<close> of \<^verbatim>\<open>src/server.js\<close>: one product for either parity.\<close>

definition srv_get_median :: "collection \<Rightarrow> outcome \<times> collection" where
  "srv_get_median c =
     (let products = map with_id (orderBy FPrice Asc c)
      in if length products = 0 then (Reply 404 (ErrorBody ''No products found''), c)
         else let mid = int (length products) div 2;
                  medianProduct = (if length products mod 2 = 1 then js_nth products mid
                                   else js_nth products (mid - 1))
              in (Reply 200 (ProductBody medianProduct), c))"

text \<open>\<^verbatim>\<open>GET /products/median\<close> of \<^verbatim>\<open>part_000\<close>: two products for an even count.\<close>

definition pg_get_median :: "collection \<Rightarrow> outcome \<times> collection" where
  "pg_get_median c =
     (let products = map with_id (orderBy FPrice Asc c)
      in if length products = 0 then (Reply 404 (ErrorBody ''No products found''), c)
         else let mid = int (length products) div 2
              in if length products mod 2 = 1
                 then (Reply 200 (ProductBody (js_nth products mid)), c)
                 else (Reply 200 (PairBody (js_nth products (mid - 1)) (js_nth products mid)), c))"

text \<open>The routes of the two Express applications. The specific paths are registered
  before \<^verbatim>\<open>/products/:id\<close>, so they are requests of their own.\<close>

datatype request =
    GET_products query
  | GET_expensivest
  | GET_cheapest
  | GET_median
  | GET_count
  | GET_by_id string
  | POST_products product
  | DELETE_by_id string
  | DELETE_all

fun is_GET :: "request \<Rightarrow> bool" where
  "is_GET (POST_products b) = False"
| "is_GET (DELETE_by_id k) = False"
| "is_GET DELETE_all = False"
| "is_GET r = True"

fun srv_app :: "(rat \<Rightarrow> string) \<Rightarrow> request \<Rightarrow> collection \<Rightarrow> outcome \<times> collection" where
  "srv_app n2s (GET_products q) c = srv_get_products c"
| "srv_app n2s GET_expensivest c = fs_get_expensivest c"
| "srv_app n2s GET_cheapest c = fs_get_cheapest c"
| "srv_app n2s GET_median c = srv_get_median c"
| "srv_app n2s GET_count c = fs_get_count c"
| "srv_app n2s (POST_products b) c = srv_post_products n2s b c"
| "srv_app n2s (GET_by_id k) c = fs_get_by_id k c"
| "srv_app n2s (DELETE_by_id k) c = fs_delete_by_id k c"
| "srv_app n2s DELETE_all c = fs_delete_all c"

fun pg_app :: "(rat \<Rightarrow> string) \<Rightarrow> request \<Rightarrow> collection \<Rightarrow> outcome \<times> collection" where
  "pg_app n2s (GET_products q) c = pg_get_products q c"
| "pg_app n2s GET_expensivest c = fs_get_expensivest c"
| "pg_app n2s GET_cheapest c = fs_get_cheapest c"
| "pg_app n2s GET_median c = pg_get_median c"
| "pg_app n2s GET_count c = fs_get_count c"
| "pg_app n2s (POST_products b) c = pg_post_products n2s b c"
| "pg_app n2s (GET_by_id k) c = fs_get_by_id k c"
| "pg_app n2s (DELETE_by_id k) c = fs_delete_by_id k c"
| "pg_app n2s DELETE_all c = fs_delete_all c"

subsection \<open>The in-memory server\<close>

text \<open>
  \<^verbatim>\<open>src/unnamed/part_001\<close> keeps the products in the array \<^verbatim>\<open>products\<close>.
  Every element is an object: the initial four are, and \<open>createProductHandler\<close> pushes
  nothing else. A request body is any JSON value.
\<close>

datatype json = JScalar jsval | JArray | JObject product

fun truthy_json :: "json \<Rightarrow> bool" where
  "truthy_json (JScalar v) = truthy v"
| "truthy_json JArray = True"
| "truthy_json (JObject p) = True"

text \<open>\<^verbatim>\<open>v.name\<close> for a value that is neither \<^verbatim>\<open>undefined\<close> nor \<^verbatim>\<open>null\<close>: only an
  object can have the property.\<close>

fun prop_name :: "json \<Rightarrow> jsval" where
  "prop_name (JObject p) = p_name p"
| "prop_name v = Undefined"

text \<open>\<^verbatim>\<open>v.trim()\<close>: only a string has the method.\<close>

fun call_trim :: "jsval \<Rightarrow> js_error + string" where
  "call_trim (Str s) = Inr (trim s)"
| "call_trim v = Inl TypeError"

text \<open>ToNumber. The conversion of a string to a number (StringToNumber) is the
  language's own and is taken as the parameter \<open>s2n\<close>; \<open>None\<close> is NaN.\<close>

fun toNumber :: "(string \<Rightarrow> rat option) \<Rightarrow> jsval \<Rightarrow> rat option" where
  "toNumber s2n Undefined = None"
| "toNumber s2n Null = Some 0"
| "toNumber s2n (Bool b) = Some (if b then 1 else 0)"
| "toNumber s2n (Num r) = Some r"
| "toNumber s2n (Str s) = s2n s"

text \<open>\<^verbatim>\<open>a < b\<close>: two strings compare by code units, anything else as numbers, and a
  comparison with NaN is false. \<^verbatim>\<open>a > b\<close> is \<^verbatim>\<open>b < a\<close>.\<close>

fun js_lt :: "(string \<Rightarrow> rat option) \<Rightarrow> jsval \<Rightarrow> jsval \<Rightarrow> bool" where
  "js_lt s2n (Str s) (Str t) = (s < t)"
| "js_lt s2n a b =
     (case (toNumber s2n a, toNumber s2n b) of
        (Some x, Some y) \<Rightarrow> x < y
      | _ \<Rightarrow> False)"

definition js_gt :: "(string \<Rightarrow> rat option) \<Rightarrow> jsval \<Rightarrow> jsval \<Rightarrow> bool" where
  "js_gt s2n a b = js_lt s2n b a"

text \<open>\<^verbatim>\<open>v === n\<close> for a number \<open>n\<close>: NaN equals nothing, and the values of the
  model are finite.\<close>

fun strict_eq_num :: "jsval \<Rightarrow> jsnum \<Rightarrow> bool" where
  "strict_eq_num (Num r) (Finite n) = (r = of_int n)"
| "strict_eq_num v n = False"

text \<open>\<^verbatim>\<open>s.split(c)\<close> for a one-character separator.\<close>

fun split :: "char \<Rightarrow> string \<Rightarrow> string list" where
  "split c [] = [[]]"
| "split c (x # xs) =
     (if x = c then [] # split c xs
      else case split c xs of
             y # ys \<Rightarrow> (x # y) # ys
           | [] \<Rightarrow> [[x]])"

text \<open>\<^verbatim>\<open>url.match(/^\/products\/(\d+)$/)\<close>: the captured digits, or \<open>None\<close> for
  \<^verbatim>\<open>null\<close>.\<close>

definition match_product_id :: "string \<Rightarrow> string option" where
  "match_product_id url =
     (if take 10 url = ''/products/'' \<and> drop 10 url \<noteq> [] \<and> list_all is_digit (drop 10 url)
      then Some (drop 10 url) else None)"

text \<open>\<^verbatim>\<open>xs.findIndex(P)\<close>, \<open>None\<close> standing for \<open>-1\<close>.\<close>

fun findIndex :: "('a \<Rightarrow> bool) \<Rightarrow> 'a list \<Rightarrow> nat option" where
  "findIndex P [] = None"
| "findIndex P (x # xs) = (if P x then Some 0 else map_option Suc (findIndex P xs))"

text \<open>\<^verbatim>\<open>xs.splice(i, 1)\<close>, the array afterwards.\<close>

definition splice1 :: "nat \<Rightarrow> 'a list \<Rightarrow> 'a list" where
  "splice1 i xs = take i xs @ drop (Suc i) xs"

text \<open>
  \<^verbatim>\<open>xs.sort(cmp)\<close> on a copy, for a comparator that is a consistent order of the
  elements. The sort is stable, so the result is the one ordering that inserting from
  the right computes; \<open>le a b\<close> says that \<^verbatim>\<open>cmp(a, b)\<close> is not positive.
\<close>

fun insert_by :: "('a \<Rightarrow> 'a \<Rightarrow> bool) \<Rightarrow> 'a \<Rightarrow> 'a list \<Rightarrow> 'a list" where
  "insert_by le x [] = [x]"
| "insert_by le x (y # ys) = (if le x y then x # y # ys else y # insert_by le x ys)"

definition sort_by :: "('a \<Rightarrow> 'a \<Rightarrow> bool) \<Rightarrow> 'a list \<Rightarrow> 'a list" where
  "sort_by le xs = foldr (insert_by le) xs []"

text \<open>\<^verbatim>\<open>a["id"] - b["id"] <= 0\<close> for two ids that are numbers.\<close>

definition id_cmp_le :: "(string \<Rightarrow> rat option) \<Rightarrow> product \<Rightarrow> product \<Rightarrow> bool" where
  "id_cmp_le s2n a b =
     (case (toNumber s2n (p_id a), toNumber s2n (p_id b)) of
        (Some x, Some y) \<Rightarrow> x - y \<le> 0
      | _ \<Rightarrow> True)"

text \<open>
  \<^verbatim>\<open>[...products].sort((a, b) => a["id"] - b["id"])\<close>. The comparator is a consistent
  order when every id converts to a number. When one does not, the difference is NaN and
  the language leaves the order of an array of two or more elements to the engine:
  \<open>None\<close>.
\<close>

definition sorted_by_id :: "(string \<Rightarrow> rat option) \<Rightarrow> product list \<Rightarrow> product list option" where
  "sorted_by_id s2n xs =
     (if length xs < 2 \<or> list_all (\<lambda>p. toNumber s2n (p_id p) \<noteq> None) xs
      then Some (sort_by (id_cmp_le s2n) xs) else None)"

definition initial_products :: "product list" where
  "initial_products =
     [\<lparr>p_id = Num 1, p_name = Str ''Apple'', p_price = Num (12312 / 100)\<rparr>,
      \<lparr>p_id = Num 2, p_name = Str ''Orange'', p_price = Num (3005 / 10)\<rparr>,
      \<lparr>p_id = Num 3, p_name = Str ''Lime'', p_price = Num (2001 / 10)\<rparr>,
      \<lparr>p_id = Num 11, p_name = Str ''Strawberry'', p_price = Num (10013 / 100)\<rparr>]"

definition getProductsHandler :: "product list \<Rightarrow> outcome \<times> product list" where
  "getProductsHandler products = (Reply 200 (ListBody products), products)"

definition getProductByIdHandler :: "string \<Rightarrow> product list \<Rightarrow> outcome \<times> product list" where
  "getProductByIdHandler url products =
     (let id = js_nth (split CHR ''/'' url) 2;
          product = find (\<lambda>product. strict_eq_num (p_id product) (parseInt_opt id)) products
      in case product of
           Some p \<Rightarrow> (if truthy_json (JObject p) then (Reply 200 (ProductBody (Some p)), products)
                      else (Reply 404 (MessageBody ''Product not found''), products))
         | None \<Rightarrow> (Reply 404 (MessageBody ''Product not found''), products))"

text \<open>\<^verbatim>\<open>xs.reduce(f)\<close> with no initial value: it throws on the empty array.\<close>

definition reduce :: "('a \<Rightarrow> 'a \<Rightarrow> 'a) \<Rightarrow> 'a list \<Rightarrow> js_error + 'a" where
  "reduce f xs = (case xs of [] \<Rightarrow> Inl TypeError | x # r \<Rightarrow> Inr (foldl f x r))"

definition getExpensivestProduct ::
  "(string \<Rightarrow> rat option) \<Rightarrow> product list \<Rightarrow> outcome \<times> product list" where
  "getExpensivestProduct s2n products =
     (case reduce (\<lambda>maxProduct product.
                     if js_gt s2n (p_price product) (p_price maxProduct) then product
                     else maxProduct) products of
        Inl e \<Rightarrow> (Throws e, products)
      | Inr expensivestProduct \<Rightarrow>
          if truthy_json (JObject expensivestProduct)
          then (Reply 200 (ProductBody (Some expensivestProduct)), products)
          else (Reply 404 (MessageBody ''Product not found''), products))"

definition getCheapestProduct ::
  "(string \<Rightarrow> rat option) \<Rightarrow> product list \<Rightarrow> outcome \<times> product list" where
  "getCheapestProduct s2n products =
     (case reduce (\<lambda>minProduct product.
                     if js_lt s2n (p_price product) (p_price minProduct) then product
                     else minProduct) products of
        Inl e \<Rightarrow> (Throws e, products)
      | Inr cheapestProduct \<Rightarrow>
          if truthy_json (JObject cheapestProduct)
          then (Reply 200 (ProductBody (Some cheapestProduct)), products)
          else (Reply 404 (MessageBody ''Product not found''), products))"

text \<open>On the empty array the handler returns \<^verbatim>\<open>null\<close> and never ends the response.\<close>

definition getMedianProduct ::
  "(string \<Rightarrow> rat option) \<Rightarrow> product list \<Rightarrow> outcome \<times> product list" where
  "getMedianProduct s2n products =
     (if length products = 0 then (NoReply, products)
      else case sorted_by_id s2n products of
             None \<Rightarrow> (Reply 200 EngineOrderBody, products)
           | Some ys \<Rightarrow>
               (let sorted = ys;
                    mid = int (length sorted) div 2
                in if length sorted mod 2 \<noteq> 0
                   then (Reply 200 (ProductBody (js_nth sorted mid)), products)
                   else (Reply 200 (PairBody (js_nth sorted (mid - 1)) (js_nth sorted mid)),
                         products)))"

definition deleteProductByIdHandler ::
  "string \<Rightarrow> string \<Rightarrow> product list \<Rightarrow> outcome \<times> product list" where
  "deleteProductByIdHandler method url products =
     (case match_product_id url of
        Some digits \<Rightarrow>
          if method = ''DELETE'' then
            (let id = parseInt digits
             in case findIndex (\<lambda>u. strict_eq_num (p_id u) id) products of
                  None \<Rightarrow> (Reply 404 (ErrorBody ''Product not found''), products)
                | Some index \<Rightarrow>
                    (Reply 200 (DeletedBody id), splice1 index products))
          else (Reply 404 (ErrorBody ''Not Found''), products)
      | None \<Rightarrow> (Reply 404 (ErrorBody ''Not Found''), products))"

text \<open>The body is \<open>None\<close> where \<^verbatim>\<open>JSON.parse\<close> throws.\<close>

definition createProductHandler :: "json option \<Rightarrow> product list \<Rightarrow> outcome \<times> product list" where
  "createProductHandler body products =
     (case body of
        None \<Rightarrow> (Throws SyntaxError, products)
      | Some newProduct \<Rightarrow>
          if \<not> truthy_json newProduct then (Reply 400 (MessageBody ''Name is required''), products)
          else (case call_trim (prop_name newProduct) of
                  Inl e \<Rightarrow> (Throws e, products)
                | Inr t \<Rightarrow>
                    if t = [] then (Reply 400 (MessageBody ''Name is required''), products)
                    else (case newProduct of
                            JObject p \<Rightarrow> (Reply 201 (ProductBody (Some p)), products @ [p])
                          | _ \<Rightarrow> (Throws TypeError, products))))"

definition notFoundHandler :: "product list \<Rightarrow> outcome \<times> product list" where
  "notFoundHandler products = (Reply 404 (MessageBody ''Route not found''), products)"

text \<open>The dispatch of \<^verbatim>\<open>createServer\<close>, in the order of the source.\<close>

definition server ::
  "(string \<Rightarrow> rat option) \<Rightarrow> string \<Rightarrow> string \<Rightarrow> json option \<Rightarrow> product list
     \<Rightarrow> outcome \<times> product list" where
  "server s2n method url body products =
     (if url = ''/products'' \<and> method = ''GET'' then getProductsHandler products
      else if match_product_id url \<noteq> None \<and> method = ''GET''
        then getProductByIdHandler url products
      else if url = ''/products'' \<and> method = ''POST'' then createProductHandler body products
      else if url = ''/products/count'' \<and> method = ''GET''
        then (Reply 200 (CountBody (length products)), products)
      else if url = ''/products/expensivest'' \<and> method = ''GET''
        then getExpensivestProduct s2n products
      else if url = ''/products/cheapest'' \<and> method = ''GET''
        then getCheapestProduct s2n products
      else if url = ''/products/median'' \<and> method = ''GET''
        then getMedianProduct s2n products
      else if url = ''/products'' \<and> method = ''DELETE''
        then (Reply 200 (MessageBody ''All products deleted''), [])
      else if match_product_id url \<noteq> None \<and> method = ''DELETE''
        then deleteProductByIdHandler method url products
      else notFoundHandler products)"

text \<open>A collection of four documents priced 10, 20, 30 and 40, and one of a single
  document, for the worked examples.\<close>

definition four_docs :: collection where
  "four_docs =
     [(''1'', \<lparr>p_id = Str ''1'', p_name = Str ''Apple'', p_price = Num 10\<rparr>),
      (''2'', \<lparr>p_id = Str ''2'', p_name = Str ''Banana'', p_price = Num 20\<rparr>),
      (''3'', \<lparr>p_id = Str ''3'', p_name = Str ''Cherry'', p_price = Num 30\<rparr>),
      (''4'', \<lparr>p_id = Str ''4'', p_name = Str ''Date'', p_price = Num 40\<rparr>)]"


text \<open>Request bodies and products for the worked examples: an id of 0, a name of one
  space, no id, an id that \<open>initial_products\<close> and \<open>four_docs\<close> already hold, a string
  id of one digit, and the id \<open>2 ^ 53\<close>.\<close>

definition zero_id_body :: product where
  "zero_id_body = \<lparr>p_id = Num 0, p_name = Str ''Apple'', p_price = Num 1\<rparr>"

definition blank_name_body :: product where
  "blank_name_body = \<lparr>p_id = Str ''1'', p_name = Str '' '', p_price = Num 1\<rparr>"

definition no_id_body :: product where
  "no_id_body = \<lparr>p_id = Undefined, p_name = Str ''Pear'', p_price = Num 1\<rparr>"

definition blueberry :: product where
  "blueberry = \<lparr>p_id = Str ''2'', p_name = Str ''Blueberry'', p_price = Num 25\<rparr>"



definition pear :: product where
  "pear = \<lparr>p_id = Num 1, p_name = Str ''Pear'', p_price = Num 5\<rparr>"



text \<open>
  A list of products is in order for a field and a direction when the store's keys of
  that field never decrease (ascending) or never increase (descending) along the list.
\<close>

definition in_order :: "field \<Rightarrow> direction \<Rightarrow> product list \<Rightarrow> bool" where
  "in_order f dir ps =
     (case dir of
        Asc \<Rightarrow> sorted (map (\<lambda>p. fs_key (field_of f p)) ps)
      | Desc \<Rightarrow> sorted (rev (map (\<lambda>p. fs_key (field_of f p)) ps)))"

section \<open>Properties\<close>

subsection \<open>Deleting every product\<close>

lemma fold_doc_delete: "fold doc_delete ks c = filter (\<lambda>kd. fst kd \<notin> set ks) c"
proof (induction ks arbitrary: c)
  case Nil
  show ?case by simp
next
  case (Cons k ks)
  have "doc_delete k c = filter (\<lambda>kd. fst kd \<noteq> k) c"
    by (simp add: doc_delete_def AList.delete_eq case_prod_unfold eq_commute)
  then show ?case
    using Cons.IH [of "doc_delete k c"] by (simp add: conj_commute)
qed

lemma batch_commit_all: "batch_commit (map fst (coll_get c)) c = []"
  by (simp add: batch_commit_def fold_doc_delete coll_get_def)

lemma fs_delete_all_eq:
  "fs_delete_all c = (Reply 200 (MessageBody ''All products deleted''), [])"
  by (simp add: fs_delete_all_def batch_commit_all)

lemma fs_get_count_empty: "fs_get_count [] = (Reply 200 (CountBody 0), [])"
  by (simp add: fs_get_count_def coll_get_def)

lemma server_delete_all:
  "server s2n ''DELETE'' ''/products'' body products =
     (Reply 200 (MessageBody ''All products deleted''), [])"
  by (simp add: server_def match_product_id_def)

lemma server_count:
  "server s2n ''GET'' ''/products/count'' body products =
     (Reply 200 (CountBody (length products)), products)"
  by (simp add: server_def match_product_id_def is_digit_def)

text \<open>
  Claim C7. \<^verbatim>\<open>DELETE /products\<close> removes every document: from every collection, the
  empty one included, each of the three servers answers 200 with the message
  \<^verbatim>\<open>All products deleted\<close> and leaves the empty collection, on which
  \<^verbatim>\<open>GET /products/count\<close> answers \<^verbatim>\<open>{count: 0}\<close>.
\<close>

theorem delete_all_empties_collection:
  "srv_app n2s DELETE_all c = (Reply 200 (MessageBody ''All products deleted''), [])
   \<and> srv_app n2s GET_count (snd (srv_app n2s DELETE_all c)) = (Reply 200 (CountBody 0), [])
   \<and> pg_app n2s DELETE_all c = (Reply 200 (MessageBody ''All products deleted''), [])
   \<and> pg_app n2s GET_count (snd (pg_app n2s DELETE_all c)) = (Reply 200 (CountBody 0), [])
   \<and> server s2n ''DELETE'' ''/products'' body products =
       (Reply 200 (MessageBody ''All products deleted''), [])
   \<and> server s2n ''GET'' ''/products/count'' body'
        (snd (server s2n ''DELETE'' ''/products'' body products)) =
       (Reply 200 (CountBody 0), [])"
  by (simp add: fs_delete_all_eq fs_get_count_empty server_delete_all server_count)

theorem delete_all_empties_collection_witness:
  "pg_app (\<lambda>r. []) DELETE_all four_docs = (Reply 200 (MessageBody ''All products deleted''), [])
   \<and> pg_app (\<lambda>r. []) GET_count (snd (pg_app (\<lambda>r. []) DELETE_all four_docs)) =
       (Reply 200 (CountBody 0), [])
   \<and> srv_app (\<lambda>r. []) DELETE_all [] = (Reply 200 (MessageBody ''All products deleted''), [])
   \<and> server (\<lambda>s. None) ''GET'' ''/products/count'' None
        (snd (server (\<lambda>s. None) ''DELETE'' ''/products'' None initial_products)) =
       (Reply 200 (CountBody 0), [])"
  using delete_all_empties_collection [of "\<lambda>r. []" four_docs "\<lambda>s. None" None initial_products None]
        delete_all_empties_collection [of "\<lambda>r. []" "[]" "\<lambda>s. None" None initial_products None]
  by (elim conjE) simp

subsection \<open>The GET handlers leave the collection as it is\<close>

lemma getProductByIdHandler_frame: "snd (getProductByIdHandler url ps) = ps"
  by (simp add: getProductByIdHandler_def Let_def split: option.splits)

lemma getExpensivestProduct_frame: "snd (getExpensivestProduct s2n ps) = ps"
  by (simp add: getExpensivestProduct_def split: sum.splits)

lemma getCheapestProduct_frame: "snd (getCheapestProduct s2n ps) = ps"
  by (simp add: getCheapestProduct_def split: sum.splits)

lemma getMedianProduct_frame: "snd (getMedianProduct s2n ps) = ps"
  by (simp add: getMedianProduct_def Let_def split: option.splits)

lemma fs_get_frames:
  "snd (fs_get_expensivest c) = c" "snd (fs_get_cheapest c) = c" "snd (fs_get_count c) = c"
  "snd (fs_get_by_id k c) = c" "snd (srv_get_products c) = c" "snd (pg_get_products q c) = c"
  "snd (srv_get_median c) = c" "snd (pg_get_median c) = c"
  by (simp_all add: fs_get_expensivest_def fs_get_cheapest_def fs_get_count_def fs_get_by_id_def
      srv_get_products_def pg_get_products_def srv_get_median_def pg_get_median_def Let_def
      split: option.splits sum.splits)

text \<open>
  Claim C10. Every GET endpoint (list, get by id, count, expensivest, cheapest, median)
  is read-only: in the two Express applications the collection after any GET request
  is the collection before it, and in the in-memory server the array after any request
  with method GET, whatever its URL, is the array before it.
\<close>

theorem get_requests_read_only:
  "(is_GET r \<longrightarrow> snd (srv_app n2s r c) = c \<and> snd (pg_app n2s r c) = c)
   \<and> snd (server s2n ''GET'' url body products) = products"
proof -
  have a: "is_GET r \<longrightarrow> snd (srv_app n2s r c) = c \<and> snd (pg_app n2s r c) = c"
    by (cases r) (simp_all add: fs_get_frames)
  have b: "snd (server s2n ''GET'' url body products) = products"
    by (simp add: server_def getProductsHandler_def getProductByIdHandler_frame
        getExpensivestProduct_frame getCheapestProduct_frame getMedianProduct_frame
        notFoundHandler_def)
  from a b show ?thesis by simp
qed

theorem get_requests_read_only_witness:
  "is_GET GET_median
   \<and> snd (srv_app (\<lambda>r. []) GET_median four_docs) = four_docs
   \<and> snd (pg_app (\<lambda>r. []) GET_median four_docs) = four_docs
   \<and> snd (server (\<lambda>s. None) ''GET'' ''/products/median'' None initial_products) = initial_products"
  using get_requests_read_only
          [of GET_median "\<lambda>r. []" four_docs "\<lambda>s. None" "''/products/median''" None initial_products]
  by simp

subsection \<open>The dead 404 branch of the in-memory aggregates\<close>

lemma foldl_select_mem:
  "foldl (\<lambda>m p. if g p m then p else m) x xs \<in> set (x # xs)"
proof (induction xs arbitrary: x)
  case Nil
  show ?case by simp
next
  case (Cons y ys)
  show ?case using Cons.IH [of y] Cons.IH [of x] by auto
qed

lemma reduce_select:
  "reduce (\<lambda>m p. if g p m then p else m) xs =
     (if xs = [] then Inl TypeError
      else Inr (foldl (\<lambda>m p. if g p m then p else m) (hd xs) (tl xs)))"
  by (cases xs) (simp_all add: reduce_def)

lemma reduce_select_mem:
  "xs \<noteq> [] \<Longrightarrow> foldl (\<lambda>m p. if g p m then p else m) (hd xs) (tl xs) \<in> set xs"
  using foldl_select_mem [of g "hd xs" "tl xs"] by (cases xs) simp_all

text \<open>
  Claim C9. In the in-memory variant the 404 branch of \<open>getExpensivestProduct\<close> and
  \<open>getCheapestProduct\<close> is unreachable: on every non-empty array the reduction yields
  one of the products, an object and so truthy, and the handler answers 200 with it;
  on the empty array the reduction without an initial value throws a TypeError before
  either branch; so no array makes either handler answer 404.
\<close>

theorem in_memory_404_branch_unreachable:
  "(products \<noteq> [] \<longrightarrow>
      (\<exists>p \<in> set products. truthy_json (JObject p)
          \<and> getExpensivestProduct s2n products = (Reply 200 (ProductBody (Some p)), products))
    \<and> (\<exists>p \<in> set products. truthy_json (JObject p)
          \<and> getCheapestProduct s2n products = (Reply 200 (ProductBody (Some p)), products)))
   \<and> getExpensivestProduct s2n [] = (Throws TypeError, [])
   \<and> getCheapestProduct s2n [] = (Throws TypeError, [])
   \<and> fst (getExpensivestProduct s2n products) \<noteq> Reply 404 b
   \<and> fst (getCheapestProduct s2n products) \<noteq> Reply 404 b"
  using reduce_select_mem [of products "\<lambda>p m. js_gt s2n (p_price p) (p_price m)"]
        reduce_select_mem [of products "\<lambda>p m. js_lt s2n (p_price p) (p_price m)"]
  by (auto simp: getExpensivestProduct_def getCheapestProduct_def reduce_select)

theorem in_memory_404_branch_unreachable_witness:
  "initial_products \<noteq> []
   \<and> (\<exists>p \<in> set initial_products.
        getExpensivestProduct (\<lambda>s. None) initial_products =
          (Reply 200 (ProductBody (Some p)), initial_products))
   \<and> (\<exists>p \<in> set initial_products.
        getCheapestProduct (\<lambda>s. None) initial_products =
          (Reply 200 (ProductBody (Some p)), initial_products))
   \<and> getExpensivestProduct (\<lambda>s. None) [] = (Throws TypeError, [])"
proof -
  have ne: "initial_products \<noteq> []" by (simp add: initial_products_def)
  from ne in_memory_404_branch_unreachable [of initial_products "\<lambda>s. None" "ErrorBody []"]
  show ?thesis by blast
qed

subsection \<open>Deleting one product\<close>


lemma doc_get_None_iff: "doc_get c k = None \<longleftrightarrow> k \<notin> fst ` set c"
  by (simp add: doc_get_def map_of_eq_None_iff)













lemma parseInt_examples:
  "parseInt ''12'' = Finite 12" "parseInt ''  -12abc'' = Finite (- 12)"
  "parseInt ''+7'' = Finite 7" "parseInt ''0x1F'' = Finite 31" "parseInt ''0'' = Finite 0"
  "parseInt ''abc'' = NaN" "parseInt [] = NaN" "parseInt ''0x'' = NaN"
  "parseInt ''9007199254740993'' = Finite 9007199254740992"
  "parseInt ''9007199254740995'' = Finite 9007199254740996"
  by (simp_all add: parseInt_def is_ws_def is_digit_def is_hex_digit_def digits_value_def
      digit_val_def hex_val_def to_double_def Let_def bit_length.simps)







subsection \<open>Creating products\<close>

lemma toString_truthy: "truthy v \<Longrightarrow> \<exists>k. toString n2s v = Inr k"
  by (cases v) simp_all

lemma doc_get_doc_set: "doc_get (doc_set k d c) k' = (if k' = k then Some d else doc_get c k')"
  by (simp add: doc_get_def doc_set_def AList.update_conv')

lemma length_doc_set:
  "length (doc_set k d c) = (if k \<in> fst ` set c then length c else Suc (length c))"
  unfolding doc_set_def by (induction c) auto

lemma wf_doc_set: "wf_collection c \<Longrightarrow> wf_collection (doc_set k d c)"
  by (simp add: wf_collection_def doc_set_def AList.distinct_update)

lemma wf_doc_delete: "wf_collection c \<Longrightarrow> wf_collection (doc_delete k c)"
  by (simp add: wf_collection_def doc_delete_def AList.distinct_delete)

lemma one_doc_per_key:
  "distinct (map fst c) \<Longrightarrow> k \<in> fst ` set c \<Longrightarrow> length (filter (\<lambda>kd. fst kd = k) c) = 1"
proof (induction c)
  case Nil
  then show ?case by simp
next
  case (Cons a c)
  show ?case
  proof (cases "fst a = k")
    case True
    with Cons.prems have "k \<notin> fst ` set c" by auto
    then have "filter (\<lambda>kd. fst kd = k) c = []" by (auto simp: filter_empty_conv)
    with True show ?thesis by simp
  next
    case False
    with Cons show ?thesis by auto
  qed
qed

lemma doc_set_twice: "doc_set k d (doc_set k d' c) = doc_set k d c"
  by (simp add: doc_set_def)

lemma fs_post_reject:
  "\<not> truthy (p_id b) \<or> \<not> truthy (p_name b) \<Longrightarrow>
   fs_post_products msg n2s b c = (Reply 400 (ErrorBody msg), c)"
  by (auto simp: fs_post_products_def)

lemma fs_post_accept:
  "truthy (p_id b) \<Longrightarrow> truthy (p_name b) \<Longrightarrow> toString n2s (p_id b) = Inr k \<Longrightarrow>
   fs_post_products msg n2s b c = (Reply 201 (ProductBody (Some b)), doc_set k b c)"
  by (simp add: fs_post_products_def)

lemma server_post:
  "server s2n ''POST'' ''/products'' body ps = createProductHandler body ps"
  by (simp add: server_def match_product_id_def)

lemma create_reject_falsy:
  "\<not> truthy_json v \<Longrightarrow>
   createProductHandler (Some v) ps = (Reply 400 (MessageBody ''Name is required''), ps)"
  by (simp add: createProductHandler_def)

lemma create_reject_blank:
  "p_name p = Str s \<Longrightarrow> trim s = [] \<Longrightarrow>
   createProductHandler (Some (JObject p)) ps = (Reply 400 (MessageBody ''Name is required''), ps)"
  by (simp add: createProductHandler_def)

lemma create_accept:
  "p_name p = Str s \<Longrightarrow> trim s \<noteq> [] \<Longrightarrow>
   createProductHandler (Some (JObject p)) ps = (Reply 201 (ProductBody (Some p)), ps @ [p])"
  by (simp add: createProductHandler_def)

text \<open>
  Claim C8. In the Firestore-backed \<^verbatim>\<open>POST /products\<close> handlers every falsy id or
  name is rejected with 400 and the collection is left as it was; the number 0 and the
  empty string are falsy. A name made only of white space is truthy: with a truthy id the
  request is answered 201 and the document is written under \<^verbatim>\<open>id.toString()\<close>, no
  trimming being done.
\<close>

theorem falsy_rejected_blank_name_written:
  "(\<not> truthy (p_id b) \<or> \<not> truthy (p_name b) \<longrightarrow>
      pg_app n2s (POST_products b) c = (Reply 400 (ErrorBody ''id and name are required''), c)
    \<and> srv_app n2s (POST_products b) c = (Reply 400 (ErrorBody ''id and name required''), c))
   \<and> \<not> truthy (Num 0) \<and> \<not> truthy (Str [])
   \<and> (truthy (p_id b) \<and> p_name b = Str s \<and> s \<noteq> [] \<and> list_all is_ws s \<longrightarrow>
       (\<exists>k. toString n2s (p_id b) = Inr k
          \<and> pg_app n2s (POST_products b) c = (Reply 201 (ProductBody (Some b)), doc_set k b c)
          \<and> srv_app n2s (POST_products b) c = (Reply 201 (ProductBody (Some b)), doc_set k b c)
          \<and> doc_get (doc_set k b c) k = Some b))"
proof -
  have r: "\<not> truthy (p_id b) \<or> \<not> truthy (p_name b) \<longrightarrow>
      pg_app n2s (POST_products b) c = (Reply 400 (ErrorBody ''id and name are required''), c)
    \<and> srv_app n2s (POST_products b) c = (Reply 400 (ErrorBody ''id and name required''), c)"
    using fs_post_reject [of b _ n2s c]
    by (simp add: pg_post_products_def srv_post_products_def)
  have w: "truthy (p_id b) \<and> p_name b = Str s \<and> s \<noteq> [] \<and> list_all is_ws s \<longrightarrow>
       (\<exists>k. toString n2s (p_id b) = Inr k
          \<and> pg_app n2s (POST_products b) c = (Reply 201 (ProductBody (Some b)), doc_set k b c)
          \<and> srv_app n2s (POST_products b) c = (Reply 201 (ProductBody (Some b)), doc_set k b c)
          \<and> doc_get (doc_set k b c) k = Some b)"
  proof
    assume h: "truthy (p_id b) \<and> p_name b = Str s \<and> s \<noteq> [] \<and> list_all is_ws s"
    then obtain k where k: "toString n2s (p_id b) = Inr k"
      using toString_truthy [of "p_id b" n2s] by blast
    from h have t: "truthy (p_name b)" by simp
    show "\<exists>k. toString n2s (p_id b) = Inr k
          \<and> pg_app n2s (POST_products b) c = (Reply 201 (ProductBody (Some b)), doc_set k b c)
          \<and> srv_app n2s (POST_products b) c = (Reply 201 (ProductBody (Some b)), doc_set k b c)
          \<and> doc_get (doc_set k b c) k = Some b"
      using h t k fs_post_accept [of b n2s k _ c]
      by (simp add: pg_post_products_def srv_post_products_def doc_get_doc_set)
  qed
  from r w show ?thesis by simp
qed

theorem falsy_rejected_blank_name_written_witness:
  "\<not> truthy (p_id zero_id_body)
   \<and> pg_app (\<lambda>r. []) (POST_products zero_id_body) four_docs =
       (Reply 400 (ErrorBody ''id and name are required''), four_docs)
   \<and> srv_app (\<lambda>r. []) (POST_products zero_id_body) four_docs =
       (Reply 400 (ErrorBody ''id and name required''), four_docs)
   \<and> truthy (p_id blank_name_body) \<and> p_name blank_name_body = Str '' ''
   \<and> '' '' \<noteq> [] \<and> list_all is_ws '' ''
   \<and> (\<exists>k. pg_app (\<lambda>r. []) (POST_products blank_name_body) [] =
            (Reply 201 (ProductBody (Some blank_name_body)), doc_set k blank_name_body [])
          \<and> doc_get (doc_set k blank_name_body []) k = Some blank_name_body)"
proof -
  have h1: "\<not> truthy (p_id zero_id_body) \<or> \<not> truthy (p_name zero_id_body)"
    by (simp add: zero_id_body_def)
  have h2: "truthy (p_id blank_name_body) \<and> p_name blank_name_body = Str '' ''
      \<and> '' '' \<noteq> [] \<and> list_all is_ws '' ''"
    by (simp add: blank_name_body_def is_ws_def)
  note a = falsy_rejected_blank_name_written [of zero_id_body "\<lambda>r. []" four_docs "'' ''"]
  note b = falsy_rejected_blank_name_written [of blank_name_body "\<lambda>r. []" "[]" "'' ''"]
  have z: "\<not> truthy (p_id zero_id_body)" by (simp add: zero_id_body_def)
  from a h1 have c1: "pg_app (\<lambda>r. []) (POST_products zero_id_body) four_docs =
       (Reply 400 (ErrorBody ''id and name are required''), four_docs)
     \<and> srv_app (\<lambda>r. []) (POST_products zero_id_body) four_docs =
       (Reply 400 (ErrorBody ''id and name required''), four_docs)" by blast
  from b h2 have c2: "\<exists>k. pg_app (\<lambda>r. []) (POST_products blank_name_body) [] =
            (Reply 201 (ProductBody (Some blank_name_body)), doc_set k blank_name_body [])
          \<and> doc_get (doc_set k blank_name_body []) k = Some blank_name_body" by blast
  from z c1 h2 c2 show ?thesis by blast
qed

text \<open>
  Claim C5, as amended. The Firestore-backed handlers reject with 400, and write nothing,
  every body whose id or name is falsy (absent, null, false, 0 or the empty string). The
  in-memory handler rejects with 400, and pushes nothing, every body that is falsy or
  whose name is a string that is empty after trimming. The claim as stated fails in both:
  the Firestore-backed handlers do not trim, so a name of one space is stored, and the
  in-memory handler never looks at the id, so a body without id is stored.
\<close>

theorem post_rejections:
  "(\<not> truthy (p_id b) \<or> \<not> truthy (p_name b) \<longrightarrow>
      pg_app n2s (POST_products b) c = (Reply 400 (ErrorBody ''id and name are required''), c)
    \<and> srv_app n2s (POST_products b) c = (Reply 400 (ErrorBody ''id and name required''), c))
   \<and> (\<not> truthy_json v \<longrightarrow>
      server s2n ''POST'' ''/products'' (Some v) ps =
        (Reply 400 (MessageBody ''Name is required''), ps))
   \<and> (p_name p = Str s \<and> trim s = [] \<longrightarrow>
      server s2n ''POST'' ''/products'' (Some (JObject p)) ps =
        (Reply 400 (MessageBody ''Name is required''), ps))"
  using fs_post_reject [of b _ n2s c] create_reject_falsy [of v ps] create_reject_blank [of p s ps]
  by (simp add: pg_post_products_def srv_post_products_def server_post)

theorem post_rejections_counterexample:
  "trim '' '' = []
   \<and> fst (pg_app (\<lambda>r. []) (POST_products \<lparr>p_id = Str ''1'', p_name = Str '' '', p_price = Num 1\<rparr>) [])
       \<noteq> Reply 400 (ErrorBody ''id and name are required'')
   \<and> snd (pg_app (\<lambda>r. []) (POST_products \<lparr>p_id = Str ''1'', p_name = Str '' '', p_price = Num 1\<rparr>) [])
       \<noteq> []
   \<and> pg_app (\<lambda>r. []) (POST_products \<lparr>p_id = Str ''1'', p_name = Str '' '', p_price = Num 1\<rparr>) [] =
       (Reply 201 (ProductBody (Some \<lparr>p_id = Str ''1'', p_name = Str '' '', p_price = Num 1\<rparr>)),
        [(''1'', \<lparr>p_id = Str ''1'', p_name = Str '' '', p_price = Num 1\<rparr>)])
   \<and> server (\<lambda>s. None) ''POST'' ''/products''
         (Some (JObject \<lparr>p_id = Undefined, p_name = Str ''Pear'', p_price = Num 1\<rparr>)) [] =
       (Reply 201 (ProductBody (Some \<lparr>p_id = Undefined, p_name = Str ''Pear'', p_price = Num 1\<rparr>)),
        [\<lparr>p_id = Undefined, p_name = Str ''Pear'', p_price = Num 1\<rparr>])"
  by (simp add: trim_def is_ws_def pg_post_products_def fs_post_products_def doc_set_def
      server_post createProductHandler_def)

theorem post_rejections_witness:
  "\<not> truthy (p_id zero_id_body)
   \<and> pg_app (\<lambda>r. []) (POST_products zero_id_body) four_docs =
       (Reply 400 (ErrorBody ''id and name are required''), four_docs)
   \<and> \<not> truthy_json (JScalar Null)
   \<and> server (\<lambda>s. None) ''POST'' ''/products'' (Some (JScalar Null)) initial_products =
       (Reply 400 (MessageBody ''Name is required''), initial_products)
   \<and> p_name blank_name_body = Str '' '' \<and> trim '' '' = []
   \<and> server (\<lambda>s. None) ''POST'' ''/products'' (Some (JObject blank_name_body)) initial_products =
       (Reply 400 (MessageBody ''Name is required''), initial_products)"
proof -
  have h1: "\<not> truthy (p_id zero_id_body)" by (simp add: zero_id_body_def)
  have h2: "\<not> truthy_json (JScalar Null)" by simp
  have h3: "p_name blank_name_body = Str '' '' \<and> trim '' '' = []"
    by (simp add: blank_name_body_def trim_def is_ws_def)
  note a = post_rejections [of zero_id_body "\<lambda>r. []" four_docs "JScalar Null" "\<lambda>s. None"
      initial_products blank_name_body "'' ''"]
  from a h1 h2 h3 show ?thesis by blast
qed

text \<open>
  Claim C3, as amended. In the Firestore-backed handlers \<^verbatim>\<open>POST /products\<close> is an
  upsert keyed by \<^verbatim>\<open>id.toString()\<close>: when a document is already stored under that
  key, the answer is 201, the document count is unchanged, exactly one document is under
  the key and it holds the posted fields, every other key keeps its document, and
  posting the same body again changes nothing. In the in-memory server a post with a
  non-blank name always appends to the array, whatever ids the array holds.
\<close>

theorem upsert_or_append:
  "(wf_collection c \<and> truthy (p_id b) \<and> truthy (p_name b) \<and> toString n2s (p_id b) = Inr k
      \<and> k \<in> fst ` set c \<longrightarrow>
      (\<exists>c'. pg_app n2s (POST_products b) c = (Reply 201 (ProductBody (Some b)), c')
           \<and> srv_app n2s (POST_products b) c = (Reply 201 (ProductBody (Some b)), c')
           \<and> length c' = length c
           \<and> wf_collection c'
           \<and> length (filter (\<lambda>kd. fst kd = k) c') = 1
           \<and> doc_get c' k = Some b
           \<and> (\<forall>k'. k' \<noteq> k \<longrightarrow> doc_get c' k' = doc_get c k')
           \<and> snd (pg_app n2s (POST_products b) c') = c'
           \<and> snd (srv_app n2s (POST_products b) c') = c'))
   \<and> (p_name p = Str s \<and> trim s \<noteq> [] \<longrightarrow>
      server s2n ''POST'' ''/products'' (Some (JObject p)) ps =
        (Reply 201 (ProductBody (Some p)), ps @ [p]))"
proof -
  have d: "wf_collection c \<and> truthy (p_id b) \<and> truthy (p_name b) \<and> toString n2s (p_id b) = Inr k
      \<and> k \<in> fst ` set c \<longrightarrow>
      (\<exists>c'. pg_app n2s (POST_products b) c = (Reply 201 (ProductBody (Some b)), c')
           \<and> srv_app n2s (POST_products b) c = (Reply 201 (ProductBody (Some b)), c')
           \<and> length c' = length c
           \<and> wf_collection c'
           \<and> length (filter (\<lambda>kd. fst kd = k) c') = 1
           \<and> doc_get c' k = Some b
           \<and> (\<forall>k'. k' \<noteq> k \<longrightarrow> doc_get c' k' = doc_get c k')
           \<and> snd (pg_app n2s (POST_products b) c') = c'
           \<and> snd (srv_app n2s (POST_products b) c') = c')"
  proof
    assume h: "wf_collection c \<and> truthy (p_id b) \<and> truthy (p_name b)
      \<and> toString n2s (p_id b) = Inr k \<and> k \<in> fst ` set c"
    define c' where "c' = doc_set k b c"
    have post: "fs_post_products msg n2s b x = (Reply 201 (ProductBody (Some b)), doc_set k b x)"
      for msg x
      using h fs_post_accept [of b n2s k msg x] by simp
    have wf: "wf_collection c'" using h wf_doc_set [of c k b] by (simp add: c'_def)
    have len: "length c' = length c" using h by (simp add: c'_def length_doc_set)
    have get: "doc_get c' k' = (if k' = k then Some b else doc_get c k')" for k'
      by (simp add: c'_def doc_get_doc_set)
    have mem: "k \<in> fst ` set c'"
      using get [of k] doc_get_None_iff [of c' k] by auto
    have one: "length (filter (\<lambda>kd. fst kd = k) c') = 1"
      using wf mem one_doc_per_key [of c' k] by (simp add: wf_collection_def)
    have again: "doc_set k b c' = c'" by (simp add: c'_def doc_set_twice)
    show "\<exists>c'. pg_app n2s (POST_products b) c = (Reply 201 (ProductBody (Some b)), c')
           \<and> srv_app n2s (POST_products b) c = (Reply 201 (ProductBody (Some b)), c')
           \<and> length c' = length c
           \<and> wf_collection c'
           \<and> length (filter (\<lambda>kd. fst kd = k) c') = 1
           \<and> doc_get c' k = Some b
           \<and> (\<forall>k'. k' \<noteq> k \<longrightarrow> doc_get c' k' = doc_get c k')
           \<and> snd (pg_app n2s (POST_products b) c') = c'
           \<and> snd (srv_app n2s (POST_products b) c') = c'"
      apply (rule exI [of _ c'])
      using wf len get one again
      by (simp add: pg_post_products_def srv_post_products_def post c'_def [symmetric])
  qed
  have m: "p_name p = Str s \<and> trim s \<noteq> [] \<longrightarrow>
      server s2n ''POST'' ''/products'' (Some (JObject p)) ps =
        (Reply 201 (ProductBody (Some p)), ps @ [p])"
    using create_accept [of p s ps] by (simp add: server_post)
  from d m show ?thesis by blast
qed

theorem upsert_or_append_witness:
  "wf_collection four_docs \<and> truthy (p_id blueberry) \<and> truthy (p_name blueberry)
   \<and> toString (\<lambda>r. []) (p_id blueberry) = Inr ''2'' \<and> ''2'' \<in> fst ` set four_docs
   \<and> (\<exists>c'. pg_app (\<lambda>r. []) (POST_products blueberry) four_docs =
              (Reply 201 (ProductBody (Some blueberry)), c')
          \<and> length c' = length four_docs \<and> doc_get c' ''2'' = Some blueberry)
   \<and> p_name pear = Str ''Pear'' \<and> trim ''Pear'' \<noteq> []
   \<and> server (\<lambda>s. None) ''POST'' ''/products'' (Some (JObject pear)) initial_products =
       (Reply 201 (ProductBody (Some pear)), initial_products @ [pear])"
proof -
  have h1: "wf_collection four_docs \<and> truthy (p_id blueberry) \<and> truthy (p_name blueberry)
     \<and> toString (\<lambda>r. []) (p_id blueberry) = Inr ''2'' \<and> ''2'' \<in> fst ` set four_docs"
    by (simp add: four_docs_def blueberry_def wf_collection_def)
  have h2: "p_name pear = Str ''Pear'' \<and> trim ''Pear'' \<noteq> []"
    by (simp add: pear_def trim_def is_ws_def)
  note a = upsert_or_append [of four_docs blueberry "\<lambda>r. []" "''2''" pear "''Pear''"
      "\<lambda>s. None" initial_products]
  from a h1 have c1: "\<exists>c'. pg_app (\<lambda>r. []) (POST_products blueberry) four_docs =
              (Reply 201 (ProductBody (Some blueberry)), c')
          \<and> length c' = length four_docs \<and> doc_get c' ''2'' = Some blueberry" by blast
  from a h2 have c2: "server (\<lambda>s. None) ''POST'' ''/products'' (Some (JObject pear)) initial_products =
       (Reply 201 (ProductBody (Some pear)), initial_products @ [pear])" by blast
  from h1 c1 h2 c2 show ?thesis by blast
qed

theorem upsert_or_append_counterexample:
  "server (\<lambda>s. None) ''POST'' ''/products''
      (Some (JObject \<lparr>p_id = Num 1, p_name = Str ''Pear'', p_price = Num 5\<rparr>)) initial_products =
     (Reply 201 (ProductBody (Some \<lparr>p_id = Num 1, p_name = Str ''Pear'', p_price = Num 5\<rparr>)),
      initial_products @ [\<lparr>p_id = Num 1, p_name = Str ''Pear'', p_price = Num 5\<rparr>])
   \<and> length (initial_products @ [\<lparr>p_id = Num 1, p_name = Str ''Pear'', p_price = Num 5\<rparr>]) = 5
   \<and> length initial_products = 4
   \<and> length (filter (\<lambda>p. p_id p = Num 1)
        (initial_products @ [\<lparr>p_id = Num 1, p_name = Str ''Pear'', p_price = Num 5\<rparr>])) = 2
   \<and> fst (server (\<lambda>s. None) ''GET'' ''/products/1'' None
        (initial_products @ [\<lparr>p_id = Num 1, p_name = Str ''Pear'', p_price = Num 5\<rparr>])) =
       Reply 200 (ProductBody (Some \<lparr>p_id = Num 1, p_name = Str ''Apple'', p_price = Num (12312 / 100)\<rparr>))"
  by (simp add: server_post createProductHandler_def trim_def is_ws_def initial_products_def
      server_def match_product_id_def is_digit_def getProductByIdHandler_def js_nth_def
      parseInt_opt_def parseInt_def digits_value_def digit_val_def to_double_def Let_def)

subsection \<open>Listing products\<close>

lemma length_orderBy: "length (orderBy f dir c) = length c"
  by (cases dir) (simp_all add: orderBy_def coll_get_def)

lemma mset_orderBy: "mset (orderBy f dir c) = mset c"
  by (cases dir) (simp_all add: orderBy_def coll_get_def)

lemma field_of_with_id: "field_of f (with_id kd) = field_of f (snd kd)"
  by (cases f) (simp_all add: field_of_def with_id_def)

lemma orderBy_asc_sorted:
  "sorted (map (\<lambda>kd. fs_key (field_of f (snd kd))) (orderBy f Asc c))"
  by (simp add: orderBy_def)

lemma orderBy_desc_sorted:
  "sorted (rev (map (\<lambda>kd. fs_key (field_of f (snd kd))) (orderBy f Desc c)))"
  by (simp add: orderBy_def rev_map [symmetric])

lemma in_order_orderBy: "in_order f dir (map with_id (orderBy f dir c))"
  using orderBy_asc_sorted [of f c] orderBy_desc_sorted [of f c]
  by (cases dir) (simp_all add: in_order_def o_def field_of_with_id)

lemma in_order_drop: "in_order f dir ps \<Longrightarrow> in_order f dir (drop n ps)"
  by (cases dir) (simp_all add: in_order_def drop_map [symmetric] rev_drop sorted_wrt_take sorted_wrt_drop del: drop_map)

lemma in_order_take: "in_order f dir ps \<Longrightarrow> in_order f dir (take n ps)"
  by (cases dir) (simp_all add: in_order_def take_map [symmetric] rev_take sorted_wrt_take sorted_wrt_drop del: take_map)


lemma set_orderBy: "set (orderBy f dir c) = set c"
  using mset_orderBy [of f dir c] by (metis set_mset_mset)








subsection \<open>The median product\<close>

lemma insert_by_insort_key:
  assumes "\<And>y. y \<in> set ys \<Longrightarrow> le x y \<longleftrightarrow> f x \<le> f y"
  shows "insert_by le x ys = insort_key f x ys"
  using assms by (induction ys) simp_all

lemma sort_by_sort_key:
  assumes "\<And>x y. x \<in> set xs \<Longrightarrow> y \<in> set xs \<Longrightarrow> le x y \<longleftrightarrow> f x \<le> f y"
  shows "sort_by le xs = sort_key f xs"
  using assms
proof (induction xs)
  case Nil
  show ?case by (simp add: sort_by_def)
next
  case (Cons x xs)
  have ih: "sort_by le xs = sort_key f xs" using Cons by simp
  have "insert_by le x (sort_key f xs) = insort_key f x (sort_key f xs)"
    by (rule insert_by_insort_key) (use Cons.prems in simp)
  with ih show ?case by (simp add: sort_by_def)
qed

lemma id_cmp_le_num:
  "toNumber s2n (p_id a) = Some x \<Longrightarrow> toNumber s2n (p_id b) = Some y \<Longrightarrow>
   id_cmp_le s2n a b \<longleftrightarrow> x \<le> y"
  by (simp add: id_cmp_le_def)

lemma sorted_by_id_numeric:
  assumes "\<forall>p \<in> set ps. toNumber s2n (p_id p) \<noteq> None"
  shows "sorted_by_id s2n ps = Some (sort_key (\<lambda>p. the (toNumber s2n (p_id p))) ps)"
proof -
  have "sort_by (id_cmp_le s2n) ps = sort_key (\<lambda>p. the (toNumber s2n (p_id p))) ps"
  proof (rule sort_by_sort_key)
    fix x y :: product
    assume "x \<in> set ps" "y \<in> set ps"
    with assms have "toNumber s2n (p_id x) \<noteq> None" "toNumber s2n (p_id y) \<noteq> None"
      by blast+
    then obtain a b where "toNumber s2n (p_id x) = Some a" "toNumber s2n (p_id y) = Some b"
      by blast
    then show "id_cmp_le s2n x y \<longleftrightarrow> the (toNumber s2n (p_id x)) \<le> the (toNumber s2n (p_id y))"
      by (simp add: id_cmp_le_num)
  qed
  with assms show ?thesis by (simp add: sorted_by_id_def list_all_iff)
qed

lemma median_engine_order:
  assumes "2 \<le> length ps" "\<exists>p \<in> set ps. toNumber s2n (p_id p) = None"
  shows "getMedianProduct s2n ps = (Reply 200 EngineOrderBody, ps)"
proof -
  from assms(2) have "\<not> list_all (\<lambda>p. toNumber s2n (p_id p) \<noteq> None) ps"
    by (auto simp: list_all_iff)
  with assms(1) show ?thesis
    by (auto simp: getMedianProduct_def sorted_by_id_def)
qed

lemma js_nth_in_range: "i < length xs \<Longrightarrow> js_nth xs (int i) = Some (xs ! i)"
  by (simp add: js_nth_def)

lemma mid_int: "int n div 2 = int (n div 2)"
  by simp

lemma mid_pred_int: "even n \<Longrightarrow> 0 < n \<Longrightarrow> int n div 2 - 1 = int (n div 2 - 1)"
  by (auto elim!: evenE)

lemma server_median:
  "server s2n ''GET'' ''/products/median'' body ps = getMedianProduct s2n ps"
  by (simp add: server_def match_product_id_def is_digit_def)

lemma median_pick_odd:
  "odd (length xs) \<Longrightarrow> js_nth xs (int (length xs) div 2) = Some (xs ! (length xs div 2))"
  unfolding mid_int by (rule js_nth_in_range) (auto elim: oddE)

lemma median_pick_even:
  assumes "even (length xs)" "0 < length xs"
  shows "js_nth xs (int (length xs) div 2) = Some (xs ! (length xs div 2))"
    and "js_nth xs (int (length xs) div 2 - 1) = Some (xs ! (length xs div 2 - 1))"
proof -
  show "js_nth xs (int (length xs) div 2) = Some (xs ! (length xs div 2))"
    unfolding mid_int using assms by (intro js_nth_in_range) auto
  show "js_nth xs (int (length xs) div 2 - 1) = Some (xs ! (length xs div 2 - 1))"
    unfolding mid_pred_int [OF assms] using assms by (intro js_nth_in_range) arith
qed

text \<open>
  Claim C1, as amended. In the two Express applications the documents are fetched in
  ascending order of price; for an odd count \<open>n\<close> both answer with the element at index
  \<open>n div 2\<close>; for an even, non-zero count \<^verbatim>\<open>part_000\<close> answers with the pair at
  indices \<open>n div 2 - 1\<close> and \<open>n div 2\<close>, and \<^verbatim>\<open>src/server.js\<close> with the single
  element at index \<open>n div 2 - 1\<close>. The in-memory server orders a copy of the array by id,
  not by price: when every id converts to a number the order is the stable ascending
  order of those numbers, and the answer is the element at index \<open>n div 2\<close> for an odd
  count and the pair at \<open>n div 2 - 1\<close> and \<open>n div 2\<close> for an even, non-zero count.
\<close>

theorem median_responses:
  "(let xs = map with_id (orderBy FPrice Asc c); n = length c
    in length xs = n \<and> mset xs = mset (map with_id c) \<and> in_order FPrice Asc xs
       \<and> (odd n \<longrightarrow>
            pg_app n2s GET_median c = (Reply 200 (ProductBody (Some (xs ! (n div 2)))), c)
          \<and> srv_app n2s GET_median c = (Reply 200 (ProductBody (Some (xs ! (n div 2)))), c))
       \<and> (even n \<and> 0 < n \<longrightarrow>
            pg_app n2s GET_median c =
              (Reply 200 (PairBody (Some (xs ! (n div 2 - 1))) (Some (xs ! (n div 2)))), c)
          \<and> srv_app n2s GET_median c = (Reply 200 (ProductBody (Some (xs ! (n div 2 - 1)))), c)))
   \<and> ((\<forall>p \<in> set ps. toNumber s2n (p_id p) \<noteq> None) \<longrightarrow>
       (let ys = sort_key (\<lambda>p. the (toNumber s2n (p_id p))) ps; m = length ps
        in (odd m \<longrightarrow>
              server s2n ''GET'' ''/products/median'' body ps =
                (Reply 200 (ProductBody (Some (ys ! (m div 2)))), ps))
         \<and> (even m \<and> 0 < m \<longrightarrow>
              server s2n ''GET'' ''/products/median'' body ps =
                (Reply 200 (PairBody (Some (ys ! (m div 2 - 1))) (Some (ys ! (m div 2)))), ps))))"
proof -
  define xs where "xs = map with_id (orderBy FPrice Asc c)"
  define ys where "ys = sort_key (\<lambda>p. the (toNumber s2n (p_id p))) ps"
  have lx: "length xs = length c" by (simp add: xs_def length_orderBy)
  have mx: "mset xs = mset (map with_id c)"
    using mset_orderBy [of FPrice Asc c] by (simp add: xs_def)
  have ox: "in_order FPrice Asc xs" unfolding xs_def by (rule in_order_orderBy)
  have odd_x: "odd (length c) \<longrightarrow>
            pg_app n2s GET_median c = (Reply 200 (ProductBody (Some (xs ! (length c div 2)))), c)
          \<and> srv_app n2s GET_median c = (Reply 200 (ProductBody (Some (xs ! (length c div 2)))), c)"
  proof
    assume o: "odd (length c)"
    then have o': "odd (length xs)" "xs \<noteq> []" "length xs mod 2 = 1"
      using lx by (auto simp: odd_iff_mod_2_eq_one)
    from median_pick_odd [OF o'(1)] o' lx
    show "pg_app n2s GET_median c = (Reply 200 (ProductBody (Some (xs ! (length c div 2)))), c)
          \<and> srv_app n2s GET_median c = (Reply 200 (ProductBody (Some (xs ! (length c div 2)))), c)"
      by (simp add: pg_get_median_def srv_get_median_def xs_def [symmetric] Let_def)
  qed
  have even_x: "even (length c) \<and> 0 < length c \<longrightarrow>
            pg_app n2s GET_median c =
              (Reply 200 (PairBody (Some (xs ! (length c div 2 - 1))) (Some (xs ! (length c div 2)))), c)
          \<and> srv_app n2s GET_median c =
              (Reply 200 (ProductBody (Some (xs ! (length c div 2 - 1)))), c)"
  proof
    assume e: "even (length c) \<and> 0 < length c"
    then have e': "even (length xs)" "0 < length xs" "length xs mod 2 \<noteq> 1" "xs \<noteq> []"
      using lx by (auto simp: even_iff_mod_2_eq_zero)
    from median_pick_even [OF e'(1) e'(2)] e' lx
    show "pg_app n2s GET_median c =
              (Reply 200 (PairBody (Some (xs ! (length c div 2 - 1))) (Some (xs ! (length c div 2)))), c)
          \<and> srv_app n2s GET_median c =
              (Reply 200 (ProductBody (Some (xs ! (length c div 2 - 1)))), c)"
      by (simp add: pg_get_median_def srv_get_median_def xs_def [symmetric] Let_def)
  qed
  have mem: "(\<forall>p \<in> set ps. toNumber s2n (p_id p) \<noteq> None) \<longrightarrow>
       (odd (length ps) \<longrightarrow>
              server s2n ''GET'' ''/products/median'' body ps =
                (Reply 200 (ProductBody (Some (ys ! (length ps div 2)))), ps))
         \<and> (even (length ps) \<and> 0 < length ps \<longrightarrow>
              server s2n ''GET'' ''/products/median'' body ps =
                (Reply 200 (PairBody (Some (ys ! (length ps div 2 - 1)))
                                     (Some (ys ! (length ps div 2)))), ps))"
  proof
    assume g: "\<forall>p \<in> set ps. toNumber s2n (p_id p) \<noteq> None"
    have sb: "sorted_by_id s2n ps = Some ys"
      using sorted_by_id_numeric [OF g] by (simp add: ys_def)
    have ly: "length ys = length ps" by (simp add: ys_def)
    have odd_y: "odd (length ps) \<longrightarrow>
            server s2n ''GET'' ''/products/median'' body ps =
              (Reply 200 (ProductBody (Some (ys ! (length ps div 2)))), ps)"
    proof
      assume o: "odd (length ps)"
      then have o': "odd (length ys)" "ps \<noteq> []" "length ys mod 2 \<noteq> 0"
        using ly by (auto simp: odd_iff_mod_2_eq_one)
      from median_pick_odd [OF o'(1)] o' ly
      show "server s2n ''GET'' ''/products/median'' body ps =
              (Reply 200 (ProductBody (Some (ys ! (length ps div 2)))), ps)"
        by (simp add: server_median getMedianProduct_def sb Let_def)
    qed
    have even_y: "even (length ps) \<and> 0 < length ps \<longrightarrow>
            server s2n ''GET'' ''/products/median'' body ps =
              (Reply 200 (PairBody (Some (ys ! (length ps div 2 - 1)))
                                   (Some (ys ! (length ps div 2)))), ps)"
    proof
      assume e: "even (length ps) \<and> 0 < length ps"
      then have e': "even (length ys)" "0 < length ys" "length ys mod 2 = 0" "ps \<noteq> []"
        using ly by auto
      from median_pick_even [OF e'(1) e'(2)] e e' ly
      show "server s2n ''GET'' ''/products/median'' body ps =
              (Reply 200 (PairBody (Some (ys ! (length ps div 2 - 1)))
                                   (Some (ys ! (length ps div 2)))), ps)"
        by (simp add: server_median getMedianProduct_def sb Let_def)
    qed
    from odd_y even_y show "(odd (length ps) \<longrightarrow>
              server s2n ''GET'' ''/products/median'' body ps =
                (Reply 200 (ProductBody (Some (ys ! (length ps div 2)))), ps))
         \<and> (even (length ps) \<and> 0 < length ps \<longrightarrow>
              server s2n ''GET'' ''/products/median'' body ps =
                (Reply 200 (PairBody (Some (ys ! (length ps div 2 - 1)))
                                     (Some (ys ! (length ps div 2)))), ps))"
      by blast
  qed
  from lx mx ox odd_x even_x mem show ?thesis
    unfolding Let_def xs_def ys_def by blast
qed

theorem median_responses_witness:
  "even (length four_docs) \<and> 0 < length four_docs
   \<and> pg_app (\<lambda>r. []) GET_median four_docs =
       (Reply 200 (PairBody (Some \<lparr>p_id = Str ''2'', p_name = Str ''Banana'', p_price = Num 20\<rparr>)
                            (Some \<lparr>p_id = Str ''3'', p_name = Str ''Cherry'', p_price = Num 30\<rparr>)),
        four_docs)
   \<and> srv_app (\<lambda>r. []) GET_median four_docs =
       (Reply 200 (ProductBody (Some \<lparr>p_id = Str ''2'', p_name = Str ''Banana'', p_price = Num 20\<rparr>)),
        four_docs)
   \<and> odd (length (butlast four_docs))
   \<and> pg_app (\<lambda>r. []) GET_median (butlast four_docs) =
       (Reply 200 (ProductBody (Some \<lparr>p_id = Str ''2'', p_name = Str ''Banana'', p_price = Num 20\<rparr>)),
        butlast four_docs)
   \<and> list_all (\<lambda>p. toNumber (\<lambda>s. None) (p_id p) \<noteq> None) initial_products
   \<and> even (length initial_products) \<and> 0 < length initial_products
   \<and> server (\<lambda>s. None) ''GET'' ''/products/median'' None initial_products =
       (Reply 200 (PairBody (Some \<lparr>p_id = Num 2, p_name = Str ''Orange'', p_price = Num (3005 / 10)\<rparr>)
                            (Some \<lparr>p_id = Num 3, p_name = Str ''Lime'', p_price = Num (2001 / 10)\<rparr>)),
        initial_products)"
proof -
  have x4: "map with_id (orderBy FPrice Asc four_docs) = map snd four_docs"
    by (simp add: orderBy_def coll_get_def four_docs_def with_id_def field_of_def)
  have x3: "map with_id (orderBy FPrice Asc (butlast four_docs)) = map snd (butlast four_docs)"
    by (simp add: orderBy_def coll_get_def four_docs_def with_id_def field_of_def)
  have y: "sort_key (\<lambda>p. the (toNumber (\<lambda>s. None) (p_id p))) initial_products = initial_products"
    by (simp add: initial_products_def)
  have h4: "even (length four_docs) \<and> 0 < length four_docs" by (simp add: four_docs_def)
  have h3: "odd (length (butlast four_docs))" by (simp add: four_docs_def)
  have hn: "\<forall>p \<in> set initial_products. toNumber (\<lambda>s. None) (p_id p) \<noteq> None"
    by (simp add: initial_products_def)
  have hm: "even (length initial_products) \<and> 0 < length initial_products"
    by (simp add: initial_products_def)
  note a = median_responses [of four_docs "\<lambda>r. []" initial_products "\<lambda>s. None" None]
  note b = median_responses [of "butlast four_docs" "\<lambda>r. []" initial_products "\<lambda>s. None" None]
  from a h4 have c1: "pg_app (\<lambda>r. []) GET_median four_docs =
       (Reply 200 (PairBody (Some \<lparr>p_id = Str ''2'', p_name = Str ''Banana'', p_price = Num 20\<rparr>)
                            (Some \<lparr>p_id = Str ''3'', p_name = Str ''Cherry'', p_price = Num 30\<rparr>)),
        four_docs)
     \<and> srv_app (\<lambda>r. []) GET_median four_docs =
       (Reply 200 (ProductBody (Some \<lparr>p_id = Str ''2'', p_name = Str ''Banana'', p_price = Num 20\<rparr>)),
        four_docs)"
    unfolding Let_def x4 by (simp add: four_docs_def)
  from b h3 have c2: "pg_app (\<lambda>r. []) GET_median (butlast four_docs) =
       (Reply 200 (ProductBody (Some \<lparr>p_id = Str ''2'', p_name = Str ''Banana'', p_price = Num 20\<rparr>)),
        butlast four_docs)"
    unfolding Let_def x3 by (simp add: four_docs_def)
  from a hn hm have c4: "server (\<lambda>s. None) ''GET'' ''/products/median'' None initial_products =
       (Reply 200 (PairBody (Some \<lparr>p_id = Num 2, p_name = Str ''Orange'', p_price = Num (3005 / 10)\<rparr>)
                            (Some \<lparr>p_id = Num 3, p_name = Str ''Lime'', p_price = Num (2001 / 10)\<rparr>)),
        initial_products)"
    unfolding Let_def y by (simp add: initial_products_def)
  have hl: "list_all (\<lambda>p. toNumber (\<lambda>s. None) (p_id p) \<noteq> None) initial_products"
    using hn by (simp add: list_all_iff)
  from h4 c1 h3 c2 hl hm c4 show ?thesis by blast
qed

theorem median_responses_counterexample:
  "even (length four_docs)
   \<and> fst (srv_app (\<lambda>r. []) GET_median four_docs) \<noteq>
       Reply 200 (PairBody (Some \<lparr>p_id = Str ''2'', p_name = Str ''Banana'', p_price = Num 20\<rparr>)
                           (Some \<lparr>p_id = Str ''3'', p_name = Str ''Cherry'', p_price = Num 30\<rparr>))
   \<and> srv_app (\<lambda>r. []) GET_median four_docs =
       (Reply 200 (ProductBody (Some \<lparr>p_id = Str ''2'', p_name = Str ''Banana'', p_price = Num 20\<rparr>)),
        four_docs)
   \<and> server (\<lambda>s. None) ''GET'' ''/products/median'' None initial_products =
       (Reply 200 (PairBody (Some \<lparr>p_id = Num 2, p_name = Str ''Orange'', p_price = Num (3005 / 10)\<rparr>)
                            (Some \<lparr>p_id = Num 3, p_name = Str ''Lime'', p_price = Num (2001 / 10)\<rparr>)),
        initial_products)
   \<and> \<not> in_order FPrice Asc
         [\<lparr>p_id = Num 2, p_name = Str ''Orange'', p_price = Num (3005 / 10)\<rparr>,
          \<lparr>p_id = Num 3, p_name = Str ''Lime'', p_price = Num (2001 / 10)\<rparr>]"
  by (simp add: srv_get_median_def orderBy_def coll_get_def four_docs_def with_id_def
      field_of_def js_nth_def server_median getMedianProduct_def sorted_by_id_def sort_by_def id_cmp_le_def
      initial_products_def in_order_def)

subsection \<open>The aggregates on the empty collection\<close>

lemma orderBy_empty_iff: "orderBy f dir c = [] \<longleftrightarrow> c = []"
  using length_orderBy [of f dir c] by (metis length_0_conv)

lemma first_of_limit:
  "xs \<noteq> [] \<Longrightarrow> limit_q 1 xs \<noteq> [] \<and> first_product (limit_q 1 xs) = Reply 200 (ProductBody (Some (with_id (hd xs))))"
  by (cases xs) (simp_all add: limit_q_def first_product_def js_nth_def)

lemma fs_aggregates_404_iff_empty:
  "(c = [] \<longrightarrow>
      fs_get_expensivest c = (Reply 404 (ErrorBody ''No products found''), c)
    \<and> fs_get_cheapest c = (Reply 404 (ErrorBody ''No products found''), c)
    \<and> pg_get_median c = (Reply 404 (ErrorBody ''No products found''), c)
    \<and> srv_get_median c = (Reply 404 (ErrorBody ''No products found''), c))
   \<and> (c \<noteq> [] \<longrightarrow>
      (\<exists>p. fs_get_expensivest c = (Reply 200 (ProductBody (Some p)), c))
    \<and> (\<exists>p. fs_get_cheapest c = (Reply 200 (ProductBody (Some p)), c))
    \<and> (\<exists>b. pg_get_median c = (Reply 200 b, c))
    \<and> (\<exists>b. srv_get_median c = (Reply 200 b, c)))"
proof -
  have e: "c = [] \<longrightarrow>
      fs_get_expensivest c = (Reply 404 (ErrorBody ''No products found''), c)
    \<and> fs_get_cheapest c = (Reply 404 (ErrorBody ''No products found''), c)
    \<and> pg_get_median c = (Reply 404 (ErrorBody ''No products found''), c)
    \<and> srv_get_median c = (Reply 404 (ErrorBody ''No products found''), c)"
    by (simp add: fs_get_expensivest_def fs_get_cheapest_def pg_get_median_def srv_get_median_def
        orderBy_def coll_get_def limit_q_def)
  have n: "c \<noteq> [] \<longrightarrow>
      (\<exists>p. fs_get_expensivest c = (Reply 200 (ProductBody (Some p)), c))
    \<and> (\<exists>p. fs_get_cheapest c = (Reply 200 (ProductBody (Some p)), c))
    \<and> (\<exists>b. pg_get_median c = (Reply 200 b, c))
    \<and> (\<exists>b. srv_get_median c = (Reply 200 b, c))"
  proof
    assume c: "c \<noteq> []"
    have d: "orderBy FPrice Desc c \<noteq> []" and a: "orderBy FPrice Asc c \<noteq> []"
      using c by (simp_all add: orderBy_empty_iff)
    have x: "\<exists>p. fs_get_expensivest c = (Reply 200 (ProductBody (Some p)), c)"
      using first_of_limit [OF d] by (simp add: fs_get_expensivest_def)
    have y: "\<exists>p. fs_get_cheapest c = (Reply 200 (ProductBody (Some p)), c)"
      using first_of_limit [OF a] by (simp add: fs_get_cheapest_def)
    have m: "\<exists>b. pg_get_median c = (Reply 200 b, c)"
      using a by (simp add: pg_get_median_def Let_def)
    have s: "\<exists>b. srv_get_median c = (Reply 200 b, c)"
      using a by (simp add: srv_get_median_def Let_def)
    from x y m s show "(\<exists>p. fs_get_expensivest c = (Reply 200 (ProductBody (Some p)), c))
    \<and> (\<exists>p. fs_get_cheapest c = (Reply 200 (ProductBody (Some p)), c))
    \<and> (\<exists>b. pg_get_median c = (Reply 200 b, c))
    \<and> (\<exists>b. srv_get_median c = (Reply 200 b, c))" by blast
  qed
  from e n show ?thesis by blast
qed

text \<open>
  Claim C4, at its failing input. On the empty array the in-memory server answers none of
  the three aggregate requests with 404: expensivest and cheapest throw a TypeError out of
  the reduction, and median returns without ending the response.
\<close>

theorem in_memory_aggregates_on_empty:
  "server s2n ''GET'' ''/products/expensivest'' body [] = (Throws TypeError, [])
   \<and> server s2n ''GET'' ''/products/cheapest'' body [] = (Throws TypeError, [])
   \<and> server s2n ''GET'' ''/products/median'' body [] = (NoReply, [])"
  by (simp add: server_def match_product_id_def is_digit_def getExpensivestProduct_def
      getCheapestProduct_def getMedianProduct_def reduce_def)

theorem in_memory_aggregates_on_empty_witness:
  "server (\<lambda>s. None) ''GET'' ''/products/expensivest'' None [] = (Throws TypeError, [])
   \<and> server (\<lambda>s. None) ''GET'' ''/products/cheapest'' None [] = (Throws TypeError, [])
   \<and> server (\<lambda>s. None) ''GET'' ''/products/median'' None [] = (NoReply, [])"
  using in_memory_aggregates_on_empty [of "\<lambda>s. None" None] by blast


end
